theory Spec2Isabelle
  imports Main
begin

section \<open>Function bodies and their qualified names\<close>

text \<open>
  The four body classes of \<^verbatim>\<open>nuitka/nodes/FunctionNodes.py\<close>:
  \<^verbatim>\<open>ExpressionFunctionBody\<close>, \<^verbatim>\<open>ExpressionGeneratorFunctionBody\<close>,
  \<^verbatim>\<open>ExpressionClassBody\<close> and \<^verbatim>\<open>ExpressionCoroutineBody\<close>.
\<close>

datatype body_kind =
    EXPRESSION_FUNCTION_BODY
  | EXPRESSION_GENERATOR_FUNCTION_BODY
  | EXPRESSION_CLASS_BODY
  | EXPRESSION_COROUTINE_BODY

text \<open>
  A body keeps the attributes \<^verbatim>\<open>getFunctionQualname\<close> reads: its \<^verbatim>\<open>name\<close>,
  the flags \<^verbatim>\<open>is_lambda\<close> and \<^verbatim>\<open>is_genexpr\<close>, the provider that
  \<^verbatim>\<open>getParentVariableProvider()\<close> answers (\<^verbatim>\<open>self.parent = provider\<close>) and the
  attribute \<^verbatim>\<open>qualname_provider\<close> (set to the provider by the constructor for
  Python 3.4 and later, and open to be overridden). A provider is the compiled module or
  another body.
\<close>

datatype body =
  Body (body_kind_of: body_kind) (name_of: string) (is_lambda: bool) (is_genexpr: bool)
       (parent_variable_provider: provider) (qualname_provider: provider)
and provider =
    CompiledPythonModule
  | BodyProvider body

fun isCompiledPythonModule :: "provider \<Rightarrow> bool" where
  "isCompiledPythonModule CompiledPythonModule = True"
| "isCompiledPythonModule (BodyProvider b) = False"

definition isExpressionClassBody :: "body \<Rightarrow> bool" where
  "isExpressionClassBody b = (body_kind_of b = EXPRESSION_CLASS_BODY)"

definition isGenerator :: "body \<Rightarrow> bool" where
  "isGenerator b = (body_kind_of b = EXPRESSION_GENERATOR_FUNCTION_BODY)"

text \<open>
  \<^verbatim>\<open>ExpressionFunctionBody.getFunctionName\<close> (inherited by generator and class bodies)
  gives back the source spelling of lambdas and generator expressions;
  \<^verbatim>\<open>ExpressionCoroutineBody.getFunctionName\<close> returns the name as it is.
\<close>

definition getFunctionName :: "body \<Rightarrow> string" where
  "getFunctionName b =
     (if body_kind_of b = EXPRESSION_COROUTINE_BODY then name_of b
      else if is_lambda b then ''<lambda>''
      else if is_genexpr b then ''<genexpr>''
      else name_of b)"

text \<open>
  \<^verbatim>\<open>ExpressionFunctionBodyBase.getFunctionQualname\<close>. The first argument is
  \<^verbatim>\<open>Utils.python_version\<close> (340 for Python 3.4).
\<close>

definition qualnameProviderOf :: "nat \<Rightarrow> body \<Rightarrow> provider" where
  "qualnameProviderOf python_version b =
     (if python_version < 340 then parent_variable_provider b else qualname_provider b)"

function getFunctionQualname :: "nat \<Rightarrow> body \<Rightarrow> string" where
  "getFunctionQualname python_version (Body k n il ig par qp) =
     (case (if python_version < 340 then par else qp) of
        CompiledPythonModule \<Rightarrow> getFunctionName (Body k n il ig par qp)
      | BodyProvider p \<Rightarrow>
          if isExpressionClassBody p
          then getFunctionQualname python_version p @ ''.'' @ getFunctionName (Body k n il ig par qp)
          else getFunctionQualname python_version p @ ''.<locals>.'' @ getFunctionName (Body k n il ig par qp))"
  by pat_completeness auto
termination
  by (relation "measure (\<lambda>(python_version, b). size b)") (auto split: if_splits)


section \<open>Function creation and call-site nodes\<close>

text \<open>
  Compile-time constants, as far as the code tests them (\<^verbatim>\<open>is None\<close>,
  \<^verbatim>\<open>== {}\<close>, \<^verbatim>\<open>!= {}\<close>).
\<close>

datatype py_constant =
    ConstNone
  | ConstInt int
  | ConstStr string
  | ConstTuple "py_constant list"
  | ConstDict "(py_constant \<times> py_constant) list"

text \<open>
  What \<^verbatim>\<open>computeExpressionCall\<close> asks of the callee's \<^verbatim>\<open>ParameterSpec\<close>
  (\<^verbatim>\<open>nuitka/nodes/ParameterSpecs.py\<close> is not among the sources): the answers of its five
  getters.
\<close>

record parameter_spec =
  getArgumentNames :: "string list"
  getStarListArgumentName :: "string option"
  getStarDictArgumentName :: "string option"
  getDefaultCount :: nat
  getAllNames :: "string list"

text \<open>
  The function body behind an \<^verbatim>\<open>ExpressionFunctionRef\<close>, with what the call-site code
  reads of it: its class, its name, \<^verbatim>\<open>getParameters()\<close>, and the answer of
  \<^verbatim>\<open>mayRaiseException(BaseException)\<close>, which
  \<^verbatim>\<open>ExpressionFunctionBody.mayRaiseException\<close> forwards to the statement body.
\<close>

record called_body =
  cb_kind :: body_kind
  cb_name :: string
  cb_parameters :: parameter_spec
  cb_mayRaiseException :: bool

datatype py_exception = TypeError string

text \<open>
  Expression nodes. \<^verbatim>\<open>ExpressionFunctionCreation\<close> has the children
  \<^verbatim>\<open>function_ref\<close>, \<^verbatim>\<open>defaults\<close>, \<^verbatim>\<open>kw_defaults\<close> and \<^verbatim>\<open>annotations\<close>;
  \<^verbatim>\<open>ExpressionFunctionCall\<close> has \<^verbatim>\<open>function\<close> (asserted to be a function creation)
  and \<^verbatim>\<open>values\<close>. A call node carries the called expression, \<^verbatim>\<open>call_args\<close> and
  \<^verbatim>\<open>call_kw\<close>. Source references are left out.
\<close>

datatype expr =
    ExpressionConstantRef py_constant
  | ExpressionVariableRef string
  | ExpressionMakeTuple "expr list"
  | ExpressionFunctionCreation function_creation
  | ExpressionCall expr "expr option" "expr option"
  | ExpressionFunctionCall function_creation "expr list"
  | ExpressionSideEffects "expr list" expr
  | ExpressionRaiseException py_exception
  | ExpressionOutlineBody string called_body "expr list"
and function_creation =
  FunctionCreation (getFunctionBody: called_body) (getDefaults: "expr list")
                   (getKwDefaults: "expr option") (getAnnotations: "expr option")

fun isExpressionConstantRef :: "expr \<Rightarrow> bool" where
  "isExpressionConstantRef (ExpressionConstantRef c) = True"
| "isExpressionConstantRef e = False"

fun isExpressionMakeTuple :: "expr \<Rightarrow> bool" where
  "isExpressionMakeTuple (ExpressionMakeTuple es) = True"
| "isExpressionMakeTuple e = False"

fun getConstant :: "expr \<Rightarrow> py_constant option" where
  "getConstant (ExpressionConstantRef c) = Some c"
| "getConstant e = None"

text \<open>
  The checker of the \<^verbatim>\<open>kw_defaults\<close> child, and the constructor of
  \<^verbatim>\<open>ExpressionFunctionCreation\<close>, which stores the children through their checkers.
\<close>

fun convertNoneConstantOrEmptyDictToNone :: "expr option \<Rightarrow> expr option" where
  "convertNoneConstantOrEmptyDictToNone None = None"
| "convertNoneConstantOrEmptyDictToNone (Some node) =
     (if isExpressionConstantRef node \<and> getConstant node = Some ConstNone then None
      else if isExpressionConstantRef node \<and> getConstant node = Some (ConstDict []) then None
      else Some node)"

definition ExpressionFunctionCreation_init ::
  "called_body \<Rightarrow> expr list \<Rightarrow> expr option \<Rightarrow> expr option \<Rightarrow> function_creation" where
  "ExpressionFunctionCreation_init function_body defaults kw_defaults annotations =
     FunctionCreation function_body defaults
       (convertNoneConstantOrEmptyDictToNone kw_defaults) annotations"

definition getName :: "function_creation \<Rightarrow> string" where
  "getName self = cb_name (getFunctionBody self)"

text \<open>
  The functions and methods these nodes call that live in modules which are not among the
  sources (\<^verbatim>\<open>NodeMakingHelpers\<close>, \<^verbatim>\<open>ParameterSpecs\<close>, \<^verbatim>\<open>CallNodes\<close>,
  \<^verbatim>\<open>FunctionInlining\<close>, \<^verbatim>\<open>Options\<close>, and the node base classes) are parameters of the
  model, collected in one record:
  \<^item> \<^verbatim>\<open>node.willRaiseException(BaseException)\<close>;
  \<^item> \<^verbatim>\<open>wrapExpressionWithSideEffects(side_effects, old_node, new_node)\<close>;
  \<^item> \<^verbatim>\<open>makeRaiseExceptionReplacementExpressionFromInstance(expression, exception)\<close>;
  \<^item> \<^verbatim>\<open>call_node.extractPreCallSideEffects()\<close>;
  \<^item> \<^verbatim>\<open>call_args.getIterationValues()\<close>;
  \<^item> \<^verbatim>\<open>matchCall(func_name, args, star_list_arg, star_dict_arg, num_defaults, positional, pairs)\<close>,
    which returns the dictionary of matched arguments (\<open>Inr\<close>) or raises
    \<^verbatim>\<open>TooManyArguments\<close> around a real exception (\<open>Inl\<close>);
  \<^item> \<^verbatim>\<open>convertFunctionCallToOutline(provider, function_ref, values)\<close>;
  \<^item> \<^verbatim>\<open>Options.isExperimental()\<close>.
\<close>

record collaborators =
  willRaiseException :: "expr \<Rightarrow> bool"
  wrapExpressionWithSideEffects :: "expr list \<Rightarrow> expr \<Rightarrow> expr \<Rightarrow> expr"
  makeRaiseExceptionReplacementExpressionFromInstance :: "expr \<Rightarrow> py_exception \<Rightarrow> expr"
  extractPreCallSideEffects :: "expr \<Rightarrow> expr list"
  getIterationValues :: "expr \<Rightarrow> expr list"
  matchCall :: "string \<Rightarrow> string list \<Rightarrow> string option \<Rightarrow> string option \<Rightarrow> nat
                  \<Rightarrow> expr list \<Rightarrow> (string \<times> expr) list \<Rightarrow> py_exception + (string \<rightharpoonup> expr)"
  convertFunctionCallToOutline :: "string \<Rightarrow> called_body \<Rightarrow> expr list \<Rightarrow> expr"
  isExperimental :: bool

text \<open>The triple every \<^verbatim>\<open>computeExpression\<close> returns: node, change tag, change message.\<close>

type_synonym computed = "expr \<times> string option \<times> string option"

subsection \<open>\<^verbatim>\<open>ExpressionFunctionCreation.computeExpression\<close>\<close>

text \<open>
  The loop over the defaults. The list \<^verbatim>\<open>side_effects\<close> is passed along as the loop
  leaves it: the loop body has no statement that appends to it.
\<close>

fun defaultsLoop ::
  "collaborators \<Rightarrow> function_creation \<Rightarrow> expr list \<Rightarrow> expr list \<Rightarrow> computed option" where
  "defaultsLoop H self side_effects [] = None"
| "defaultsLoop H self side_effects (default_node # rest) =
     (if willRaiseException H default_node
      then Some (wrapExpressionWithSideEffects H side_effects (ExpressionFunctionCreation self) default_node,
                 Some ''new_raise'', Some ''Default value contains raise.'')
      else defaultsLoop H self side_effects rest)"

definition annotationsStep ::
  "collaborators \<Rightarrow> function_creation \<Rightarrow> expr list \<Rightarrow> computed" where
  "annotationsStep H self side_effects =
     (case getAnnotations self of
        Some annotations \<Rightarrow>
          if willRaiseException H annotations
          then (wrapExpressionWithSideEffects H side_effects (ExpressionFunctionCreation self) annotations,
                Some ''new_raise'', Some ''Annotation values contain raise.'')
          else (ExpressionFunctionCreation self, None, None)
      | None \<Rightarrow> (ExpressionFunctionCreation self, None, None))"

definition computeExpression :: "collaborators \<Rightarrow> function_creation \<Rightarrow> computed" where
  "computeExpression H self =
     (let side_effects = [] in
      case defaultsLoop H self side_effects (getDefaults self) of
        Some result \<Rightarrow> result
      | None \<Rightarrow>
          (case getKwDefaults self of
             Some kw_defaults \<Rightarrow>
               if willRaiseException H kw_defaults
               then (wrapExpressionWithSideEffects H side_effects (ExpressionFunctionCreation self) kw_defaults,
                     Some ''new_raise'', Some ''Keyword default values contain raise.'')
               else annotationsStep H self (side_effects @ [kw_defaults])
           | None \<Rightarrow> annotationsStep H self side_effects))"

subsection \<open>\<^verbatim>\<open>ExpressionFunctionCreation.computeExpressionCall\<close>\<close>

datatype error = AssertionError | KeyError string | AttributeError

text \<open>\<^verbatim>\<open>[args_dict[name] for name in call_spec.getAllNames()]\<close>: a missing key raises.\<close>

fun lookupAll :: "(string \<rightharpoonup> expr) \<Rightarrow> string list \<Rightarrow> error + expr list" where
  "lookupAll args_dict [] = Inr []"
| "lookupAll args_dict (name # names) =
     (case args_dict name of
        None \<Rightarrow> Inl (KeyError name)
      | Some v \<Rightarrow>
          (case lookupAll args_dict names of
             Inl e \<Rightarrow> Inl e
           | Inr vs \<Rightarrow> Inr (v # vs)))"

definition quoted :: "string \<Rightarrow> string" where
  "quoted s = CHR 0x27 # s @ [CHR 0x27]"

text \<open>The part after the argument-shape tests: \<^verbatim>\<open>try: matchCall(...) except TooManyArguments\<close>.\<close>

definition matchAndRewrite ::
  "collaborators \<Rightarrow> function_creation \<Rightarrow> expr \<Rightarrow> expr list \<Rightarrow> error + computed" where
  "matchAndRewrite H self call_node args_tuple =
     (let function_body = getFunctionBody self;
          call_spec = cb_parameters function_body
      in case matchCall H (getName self) (getArgumentNames call_spec)
                (getStarListArgumentName call_spec) (getStarDictArgumentName call_spec)
                (getDefaultCount call_spec) args_tuple [] of
           Inr args_dict \<Rightarrow>
             (case lookupAll args_dict (getAllNames call_spec) of
                Inl e \<Rightarrow> Inl e
              | Inr vals \<Rightarrow>
                  Inr (ExpressionFunctionCall self vals, Some ''new_statements'',
                       Some (''Replaced call to created function body '' @ quoted (getName self)
                             @ '' with direct function call.'')))
         | Inl e \<Rightarrow>
             Inr (wrapExpressionWithSideEffects H (extractPreCallSideEffects H call_node) call_node
                    (makeRaiseExceptionReplacementExpressionFromInstance H call_node e),
                  Some ''new_raise'',
                  Some (''Replaced call to created function body '' @ quoted (getName self)
                        @ '' to argument error'')))"

definition computeExpressionCall ::
  "collaborators \<Rightarrow> function_creation \<Rightarrow> expr \<Rightarrow> expr option \<Rightarrow> expr option \<Rightarrow> error + computed" where
  "computeExpressionCall H self call_node call_args call_kw =
     (case call_kw of
        Some kw \<Rightarrow>
          if \<not> isExpressionConstantRef kw \<or> getConstant kw \<noteq> Some (ConstDict [])
          then Inr (call_node, None, None)
          else Inr (call_node, None, None)
      | None \<Rightarrow>
          (case call_args of
             None \<Rightarrow> matchAndRewrite H self call_node []
           | Some args \<Rightarrow>
               if isExpressionConstantRef args \<or> isExpressionMakeTuple args
               then matchAndRewrite H self call_node (getIterationValues H args)
               else Inl AssertionError))"

subsection \<open>\<^verbatim>\<open>getCallCost\<close> and \<^verbatim>\<open>ExpressionFunctionCall.computeExpression\<close>\<close>

definition isClassBody :: "called_body \<Rightarrow> bool" where
  "isClassBody function_body = (cb_kind function_body = EXPRESSION_CLASS_BODY)"

definition isGeneratorBody :: "called_body \<Rightarrow> bool" where
  "isGeneratorBody function_body = (cb_kind function_body = EXPRESSION_GENERATOR_FUNCTION_BODY)"

definition getCallCost :: "collaborators \<Rightarrow> function_creation \<Rightarrow> expr list \<Rightarrow> int option" where
  "getCallCost H self vals =
     (if \<not> isExperimental H then None
      else let function_body = getFunctionBody self in
        if isGeneratorBody function_body then None
        else if isClassBody function_body then None
        else if cb_mayRaiseException function_body then Some 60
        else Some 20)"

definition createOutlineFromCall ::
  "collaborators \<Rightarrow> function_creation \<Rightarrow> string \<Rightarrow> expr list \<Rightarrow> expr" where
  "createOutlineFromCall H self provider vals =
     convertFunctionCallToOutline H provider (getFunctionBody self) vals"

text \<open>
  \<^verbatim>\<open>ExpressionFunctionCall.computeExpression\<close>; \<open>provider\<close> is what
  \<^verbatim>\<open>self.getParentVariableProvider()\<close> answers for the call node.
\<close>

definition FunctionCall_computeExpression ::
  "collaborators \<Rightarrow> string \<Rightarrow> function_creation \<Rightarrow> expr list \<Rightarrow> computed" where
  "FunctionCall_computeExpression H provider fn vals =
     (case getCallCost H fn vals of
        Some cost \<Rightarrow>
          if cost < 50
          then (createOutlineFromCall H fn provider vals, Some ''new_statements'',
                Some ''Function call in-lined.'')
          else (ExpressionFunctionCall fn vals, None, None)
      | None \<Rightarrow> (ExpressionFunctionCall fn vals, None, None))"


subsection \<open>The call-site optimizer as a pass over a tree\<close>





section \<open>Variables and scopes\<close>

text \<open>
  Variables carry their owner (the identity of the owning scope object, a number here) and
  their name. \<^verbatim>\<open>nuitka/Variables.py\<close> is not among the sources; the classes are the ones
  \<^verbatim>\<open>FunctionNodes.py\<close> constructs and tests. A parameter variable answers
  \<^verbatim>\<open>isLocalVariable()\<close> with true: \<^verbatim>\<open>getUserLocalVariables\<close> selects
  \<^verbatim>\<open>isLocalVariable() and not isParameterVariable()\<close>, and
  \<^verbatim>\<open>addFunctionVariableReleases\<close> tests \<^verbatim>\<open>isParameterVariable()\<close> on the elements of
  \<^verbatim>\<open>getLocalVariables()\<close>.
\<close>

type_synonym scope_id = nat

datatype variable =
    LocalVariable scope_id string
  | ParameterVariable scope_id string
  | MaybeLocalVariable scope_id variable
  | ModuleVariable scope_id string

fun getOwner :: "variable \<Rightarrow> scope_id" where
  "getOwner (LocalVariable owner n) = owner"
| "getOwner (ParameterVariable owner n) = owner"
| "getOwner (MaybeLocalVariable owner v) = owner"
| "getOwner (ModuleVariable owner n) = owner"

fun getVariableName :: "variable \<Rightarrow> string" where
  "getVariableName (LocalVariable owner n) = n"
| "getVariableName (ParameterVariable owner n) = n"
| "getVariableName (MaybeLocalVariable owner v) = getVariableName v"
| "getVariableName (ModuleVariable owner n) = n"

fun isLocalVariable :: "variable \<Rightarrow> bool" where
  "isLocalVariable (LocalVariable owner n) = True"
| "isLocalVariable (ParameterVariable owner n) = True"
| "isLocalVariable v = False"

fun isParameterVariable :: "variable \<Rightarrow> bool" where
  "isParameterVariable (ParameterVariable owner n) = True"
| "isParameterVariable v = False"

fun isModuleVariable :: "variable \<Rightarrow> bool" where
  "isModuleVariable (ModuleVariable owner n) = True"
| "isModuleVariable v = False"

fun isMaybeLocalVariable :: "variable \<Rightarrow> bool" where
  "isMaybeLocalVariable (MaybeLocalVariable owner v) = True"
| "isMaybeLocalVariable v = False"

text \<open>Statements, as far as the function builders and the release injector make them.\<close>

datatype statement =
    StatementReturn expr
  | StatementExpressionOnly expr
  | StatementReleaseVariable variable
  | StatementsSequence "statement list"
  | StatementsFrame "statement list"
  | StatementTryFinally statement "statement list"

fun isStatementsFrame :: "statement \<Rightarrow> bool" where
  "isStatementsFrame (StatementsFrame ss) = True"
| "isStatementsFrame s = False"

fun getStatements :: "statement \<Rightarrow> statement list" where
  "getStatements (StatementsSequence ss) = ss"
| "getStatements (StatementsFrame ss) = ss"
| "getStatements s = []"

fun setStatements :: "statement \<Rightarrow> statement list \<Rightarrow> statement" where
  "setStatements (StatementsSequence old) ss = StatementsSequence ss"
| "setStatements (StatementsFrame old) ss = StatementsFrame ss"
| "setStatements s ss = s"

text \<open>
  A function scope: the identity of the body object, its class, the dictionary
  \<^verbatim>\<open>providing\<close> in insertion order, the set \<^verbatim>\<open>taken\<close>, the unoptimized indicator and
  the child \<^verbatim>\<open>body\<close>.
\<close>

record function_scope =
  scope_ident :: scope_id
  scope_kind :: body_kind
  providing :: "(string \<times> variable) list"
  taken :: "variable set"
  isUnoptimized :: bool
  getBody :: "statement option"

definition hasProvidedVariable :: "function_scope \<Rightarrow> string \<Rightarrow> bool" where
  "hasProvidedVariable self variable_name = (variable_name \<in> fst ` set (providing self))"

text \<open>\<^verbatim>\<open>self.providing[name] = variable\<close>: an existing key keeps its place, a new one goes last.\<close>

fun dict_set :: "(string \<times> variable) list \<Rightarrow> string \<Rightarrow> variable \<Rightarrow> (string \<times> variable) list" where
  "dict_set [] k v = [(k, v)]"
| "dict_set ((k', v') # rest) k v =
     (if k' = k then (k, v) # rest else (k', v') # dict_set rest k v)"

definition registerProvidedVariable :: "function_scope \<Rightarrow> variable \<Rightarrow> function_scope" where
  "registerProvidedVariable self variable =
     self\<lparr>providing := dict_set (providing self) (getVariableName variable) variable\<rparr>"

definition addClosureVariable :: "function_scope \<Rightarrow> variable \<Rightarrow> function_scope" where
  "addClosureVariable self variable = self\<lparr>taken := insert variable (taken self)\<rparr>"

definition scopeIsGenerator :: "function_scope \<Rightarrow> bool" where
  "scopeIsGenerator self = (scope_kind self = EXPRESSION_GENERATOR_FUNCTION_BODY)"

definition scopeIsExpressionFunctionBody :: "function_scope \<Rightarrow> bool" where
  "scopeIsExpressionFunctionBody self = (scope_kind self \<noteq> EXPRESSION_COROUTINE_BODY)"

subsection \<open>Resolving references\<close>

text \<open>
  \<^verbatim>\<open>getVariableForClosure\<close> along the provider chain: the list holds the enclosing
  bodies, nearest first, and ends where the module begins. What the module answers
  (\<^verbatim>\<open>nuitka/nodes/ModuleNodes.py\<close> is not among the sources) is the parameter
  \<open>module_variable\<close>. The equations follow
  \<^verbatim>\<open>ExpressionClassBody.getVariableForClosure\<close> for a class body and
  \<^verbatim>\<open>ExpressionFunctionBody.getVariableForClosure\<close> otherwise; the branch guarded by
  \<^verbatim>\<open>python_version >= 340 and False\<close> is never taken.
\<close>

definition lookupProvided :: "function_scope \<Rightarrow> string \<Rightarrow> variable option" where
  "lookupProvided self variable_name = map_of (providing self) variable_name"

fun getVariableForClosure ::
  "nat \<Rightarrow> (string \<Rightarrow> variable) \<Rightarrow> function_scope list \<Rightarrow> string \<Rightarrow> variable" where
  "getVariableForClosure python_version module_variable [] variable_name =
     module_variable variable_name"
| "getVariableForClosure python_version module_variable (self # providers) variable_name =
     (if scope_kind self = EXPRESSION_CLASS_BODY
         \<and> \<not> (variable_name = ''__class__'' \<and> \<not> python_version < 300)
      then getVariableForClosure python_version module_variable providers variable_name
      else (case lookupProvided self variable_name of
              Some v \<Rightarrow> v
            | None \<Rightarrow> getVariableForClosure python_version module_variable providers variable_name))"

fun getMaybeVariable :: "variable \<Rightarrow> variable" where
  "getMaybeVariable (MaybeLocalVariable owner v) = v"
| "getMaybeVariable v = v"

text \<open>
  Modelled from the spec: \<^verbatim>\<open>ClosureTakerMixin.getClosureVariable\<close> and
  \<^verbatim>\<open>addClosureVariable\<close> are in \<^verbatim>\<open>nuitka/nodes/NodeBases.py\<close>, which is not among the
  sources. Following section 4.1 of the specification, the closure search runs on the
  parent chain and the first ancestor that provides the name wins; the variable found is
  registered as taken in every scope on the path from the reference scope up to, not
  including, the owner, and the scopes between re-expose it as provided. A maybe-local
  variable is created only inside the unoptimized scope that owns it (section 3), so one
  found by the search is replaced by the variable it wraps
  (\<^verbatim>\<open>getMaybeVariable\<close>); and a module variable is not a capture. The result is
  the variable, the scope the method was called on, and the enclosing bodies, as the call
  leaves them.
\<close>

fun registerOnPath :: "function_scope list \<Rightarrow> variable \<Rightarrow> function_scope list" where
  "registerOnPath [] v = []"
| "registerOnPath (s # providers) v =
     (if scope_ident s = getOwner v then s # providers
      else registerProvidedVariable (addClosureVariable s v) v # registerOnPath providers v)"

definition getClosureVariable ::
  "nat \<Rightarrow> (string \<Rightarrow> variable) \<Rightarrow> function_scope list \<Rightarrow> function_scope \<Rightarrow> string
     \<Rightarrow> variable \<times> function_scope \<times> function_scope list" where
  "getClosureVariable python_version module_variable providers self variable_name =
     (let found = getVariableForClosure python_version module_variable providers variable_name;
          result = (if isMaybeLocalVariable found then getMaybeVariable found else found)
      in if \<not> isModuleVariable result
         then (result, addClosureVariable self result, registerOnPath providers result)
         else (result, self, providers))"

text \<open>
  \<^verbatim>\<open>ExpressionFunctionBody.getVariableForReference\<close>. The call
  \<^verbatim>\<open>self.getClosureVariable(variable_name)\<close> is the parameter \<open>closure_variable\<close>,
  which returns the variable and the scope as the call leaves it.
\<close>

definition getVariableForReference ::
  "(function_scope \<Rightarrow> string \<Rightarrow> variable \<times> function_scope) \<Rightarrow> function_scope \<Rightarrow> string
     \<Rightarrow> variable \<times> function_scope" where
  "getVariableForReference closure_variable self variable_name =
     (case lookupProvided self variable_name of
        Some v \<Rightarrow> (v, self)
      | None \<Rightarrow>
          (let (result, self1) = closure_variable self variable_name;
               self2 = (if \<not> isModuleVariable result
                        then registerProvidedVariable self1 result else self1)
           in if isUnoptimized self2 \<and> isModuleVariable result
              then (let maybe = MaybeLocalVariable (scope_ident self2) result
                    in (maybe, registerProvidedVariable self2 maybe))
              else (result, self2)))"

text \<open>
  A reference resolved in the innermost scope of a chain of bodies (the reference scope
  first, the module after the last): the call above with the closure search over the
  enclosing bodies, which runs only when the reference scope does not provide the name.
  The result is the variable and the chain after the call.
\<close>

fun resolveForReference ::
  "nat \<Rightarrow> (string \<Rightarrow> variable) \<Rightarrow> function_scope list \<Rightarrow> string
     \<Rightarrow> (variable \<times> function_scope list) option" where
  "resolveForReference python_version module_variable [] variable_name = None"
| "resolveForReference python_version module_variable (self # providers) variable_name =
     (let (found, self1, providers') =
            getClosureVariable python_version module_variable providers self variable_name;
          (result, self') = getVariableForReference (\<lambda>s n. (found, self1)) self variable_name
      in Some (result,
               self' # (if lookupProvided self variable_name = None then providers'
                        else providers)))"

subsection \<open>The release injector\<close>

definition getLocalVariables :: "function_scope \<Rightarrow> variable list" where
  "getLocalVariables self = filter isLocalVariable (map snd (providing self))"

text \<open>The loop of \<^verbatim>\<open>addFunctionVariableReleases\<close> with its two \<^verbatim>\<open>continue\<close> tests.\<close>

fun releasesLoop :: "function_scope \<Rightarrow> variable list \<Rightarrow> statement list" where
  "releasesLoop fn [] = []"
| "releasesLoop fn (variable # rest) =
     (if getOwner variable \<noteq> scope_ident fn then releasesLoop fn rest
      else if scopeIsGenerator fn \<and> isParameterVariable variable then releasesLoop fn rest
      else StatementReleaseVariable variable # releasesLoop fn rest)"

text \<open>
  \<^verbatim>\<open>addFunctionVariableReleases\<close>. The two helpers of modules that are not among the
  sources are parameters: \<open>makeTryFinallyStatement\<close> (given \<^verbatim>\<open>tried\<close> and
  \<^verbatim>\<open>final\<close>) and \<open>makeStatementsSequenceFromStatement\<close>.
\<close>

definition addFunctionVariableReleases ::
  "(statement \<Rightarrow> statement list \<Rightarrow> statement) \<Rightarrow> (statement \<Rightarrow> statement)
     \<Rightarrow> function_scope \<Rightarrow> error + function_scope" where
  "addFunctionVariableReleases makeTryFinallyStatement makeStatementsSequenceFromStatement fn =
     (if \<not> scopeIsExpressionFunctionBody fn then Inl AssertionError
      else let releases = releasesLoop fn (getLocalVariables fn) in
        if releases \<noteq> [] then
          (case getBody fn of
             None \<Rightarrow> Inl AttributeError
           | Some body \<Rightarrow>
               (let body1 = (if isStatementsFrame body
                             then makeStatementsSequenceFromStatement body else body);
                    body2 = makeTryFinallyStatement body1 releases
                in Inr (fn\<lparr>getBody := Some (makeStatementsSequenceFromStatement body2)\<rparr>)))
        else Inr fn)"

text \<open>
  The variables the specification names for release: owned by the body, local, and neither
  parameter nor closure variable. It is compared with \<open>releasesLoop\<close> below.
\<close>

definition specReleaseVariables :: "function_scope \<Rightarrow> variable list" where
  "specReleaseVariables fn =
     filter (\<lambda>v. getOwner v = scope_ident fn \<and> isLocalVariable v \<and> \<not> isParameterVariable v
                 \<and> v \<notin> taken fn)
       (map snd (providing fn))"

subsection \<open>The final return statement\<close>

definition returnNone :: statement where
  "returnNone = StatementReturn (ExpressionConstantRef ConstNone)"

text \<open>
  \<^verbatim>\<open>_insertFinalReturnStatement\<close>; \<open>isStatementAborting\<close> is the method of the
  statement classes, which are not among the sources.
\<close>

definition insertFinalReturnStatement ::
  "(statement \<Rightarrow> bool) \<Rightarrow> (statement \<Rightarrow> statement) \<Rightarrow> statement option \<Rightarrow> statement" where
  "insertFinalReturnStatement isStatementAborting makeStatementsSequenceFromStatement
     function_statements_body =
     (case function_statements_body of
        None \<Rightarrow> makeStatementsSequenceFromStatement returnNone
      | Some body \<Rightarrow>
          if \<not> isStatementAborting body
          then setStatements body (getStatements body @ [returnNone])
          else body)"

text \<open>
  The part of \<^verbatim>\<open>buildFunctionNode\<close> between \<^verbatim>\<open>buildStatementsNode\<close> and
  \<^verbatim>\<open>setBody\<close>: the argument is the kind \<^verbatim>\<open>detectFunctionBodyKind\<close> found and the
  statements \<^verbatim>\<open>buildStatementsNode\<close> returned (\<^verbatim>\<open>None\<close> for no statements); the
  result is the body given to \<^verbatim>\<open>setBody\<close>.
\<close>

definition buildFunctionNode_body ::
  "(statement \<Rightarrow> bool) \<Rightarrow> (statement \<Rightarrow> statement) \<Rightarrow> bool \<Rightarrow> statement option
     \<Rightarrow> error + statement" where
  "buildFunctionNode_body isStatementAborting makeStatementsSequenceFromStatement
     is_generator function_statements_body =
     (let body = (if is_generator then function_statements_body
                  else Some (insertFinalReturnStatement isStatementAborting
                               makeStatementsSequenceFromStatement function_statements_body))
      in case body of
           None \<Rightarrow> Inl AttributeError
         | Some b \<Rightarrow>
             Inr (if isStatementsFrame b then makeStatementsSequenceFromStatement b else b))"

text \<open>The same part of \<^verbatim>\<open>buildAsyncFunctionNode\<close>, for the coroutine body.\<close>

definition buildAsyncFunctionNode_body ::
  "(statement \<Rightarrow> bool) \<Rightarrow> (statement \<Rightarrow> statement) \<Rightarrow> statement option \<Rightarrow> statement" where
  "buildAsyncFunctionNode_body isStatementAborting makeStatementsSequenceFromStatement
     function_statements_body =
     (let b = insertFinalReturnStatement isStatementAborting
                makeStatementsSequenceFromStatement function_statements_body
      in if isStatementsFrame b then makeStatementsSequenceFromStatement b else b)"

text \<open>
  A structural reading of \<^verbatim>\<open>isStatementAborting\<close>, used to instantiate the parameter:
  a return aborts, and a sequence, frame or try/finally aborts when its last (tried)
  statement does.
\<close>

fun abortsAtEnd :: "statement \<Rightarrow> bool" and lastAbortsAtEnd :: "statement list \<Rightarrow> bool" where
  "abortsAtEnd (StatementReturn e) = True"
| "abortsAtEnd (StatementExpressionOnly e) = False"
| "abortsAtEnd (StatementReleaseVariable v) = False"
| "abortsAtEnd (StatementsSequence ss) = lastAbortsAtEnd ss"
| "abortsAtEnd (StatementsFrame ss) = lastAbortsAtEnd ss"
| "abortsAtEnd (StatementTryFinally tried final) = abortsAtEnd tried"
| "lastAbortsAtEnd [] = False"
| "lastAbortsAtEnd (s # ss) = (if ss = [] then abortsAtEnd s else lastAbortsAtEnd ss)"


section \<open>Instances for the examples\<close>

text \<open>
  The theorems below hold for every choice of the collaborators. The examples need one
  choice: a raise node always raises and nothing else does; side effects are wrapped
  around the new node when there are any; the iteration values of a tuple creation are its
  elements and those of a constant tuple are constants; the pre-call side effects of a
  call are the elements of its argument tuple that are not constants. The matching of the
  examples covers parameter lists without defaults and without catch-all parameters: it
  binds the positional arguments to the names it is given, in order, when there are as
  many of the ones as of the others, and reports \<^verbatim>\<open>TooManyArguments\<close> otherwise.
\<close>

definition exampleWillRaise :: "expr \<Rightarrow> bool" where
  "exampleWillRaise e = (case e of ExpressionRaiseException x \<Rightarrow> True | _ \<Rightarrow> False)"

definition exampleWrap :: "expr list \<Rightarrow> expr \<Rightarrow> expr \<Rightarrow> expr" where
  "exampleWrap side_effects old_node new_node =
     (if side_effects = [] then new_node else ExpressionSideEffects side_effects new_node)"

definition exampleIterationValues :: "expr \<Rightarrow> expr list" where
  "exampleIterationValues e =
     (case e of
        ExpressionMakeTuple es \<Rightarrow> es
      | ExpressionConstantRef c \<Rightarrow>
          (case c of ConstTuple cs \<Rightarrow> map ExpressionConstantRef cs | _ \<Rightarrow> [])
      | _ \<Rightarrow> [])"

definition examplePreCallSideEffects :: "expr \<Rightarrow> expr list" where
  "examplePreCallSideEffects e =
     (case e of
        ExpressionCall called call_args call_kw \<Rightarrow>
          (case call_args of
             Some a \<Rightarrow> filter (\<lambda>x. \<not> isExpressionConstantRef x) (exampleIterationValues a)
           | None \<Rightarrow> [])
      | _ \<Rightarrow> [])"

definition exampleMatchCall ::
  "string \<Rightarrow> string list \<Rightarrow> string option \<Rightarrow> string option \<Rightarrow> nat
     \<Rightarrow> expr list \<Rightarrow> (string \<times> expr) list \<Rightarrow> py_exception + (string \<rightharpoonup> expr)" where
  "exampleMatchCall func_name args star_list_arg star_dict_arg num_defaults positional pairs =
     (if length args = length positional then Inr (map_of (zip args positional))
      else Inl (TypeError (func_name @ ''() takes another number of arguments'')))"

definition exampleCollaborators :: "bool \<Rightarrow> collaborators" where
  "exampleCollaborators experimental =
     \<lparr> willRaiseException = exampleWillRaise,
       wrapExpressionWithSideEffects = exampleWrap,
       makeRaiseExceptionReplacementExpressionFromInstance = (\<lambda>expression exception. ExpressionRaiseException exception),
       extractPreCallSideEffects = examplePreCallSideEffects,
       getIterationValues = exampleIterationValues,
       matchCall = exampleMatchCall,
       convertFunctionCallToOutline = ExpressionOutlineBody,
       isExperimental = experimental \<rparr>"

text \<open>A function \<^verbatim>\<open>f(a, b, c=...)\<close> whose body cannot raise, and its creation node.\<close>

definition example_f :: called_body where
  "example_f =
     \<lparr> cb_kind = EXPRESSION_FUNCTION_BODY, cb_name = ''f'',
       cb_parameters = \<lparr> getArgumentNames = [''a'', ''b'', ''c''],
                         getStarListArgumentName = None, getStarDictArgumentName = None,
                         getDefaultCount = 1, getAllNames = [''a'', ''b'', ''c''] \<rparr>,
       cb_mayRaiseException = False \<rparr>"

definition example_creation :: function_creation where
  "example_creation = FunctionCreation example_f [ExpressionConstantRef (ConstInt 0)] None None"

definition intConstants :: "int list \<Rightarrow> expr" where
  "intConstants xs = ExpressionMakeTuple (map (\<lambda>x. ExpressionConstantRef (ConstInt x)) xs)"

text \<open>
  A function \<^verbatim>\<open>g(a, b, c)\<close> and a function \<^verbatim>\<open>h(a, *, k)\<close> with a keyword-only
  parameter, neither with defaults nor with a body that can raise; a call of a function
  creation with constant positional arguments.
\<close>

definition example_g :: called_body where
  "example_g =
     \<lparr> cb_kind = EXPRESSION_FUNCTION_BODY, cb_name = ''g'',
       cb_parameters = \<lparr> getArgumentNames = [''a'', ''b'', ''c''],
                         getStarListArgumentName = None, getStarDictArgumentName = None,
                         getDefaultCount = 0, getAllNames = [''a'', ''b'', ''c''] \<rparr>,
       cb_mayRaiseException = False \<rparr>"

definition example_h :: called_body where
  "example_h =
     \<lparr> cb_kind = EXPRESSION_FUNCTION_BODY, cb_name = ''h'',
       cb_parameters = \<lparr> getArgumentNames = [''a''],
                         getStarListArgumentName = None, getStarDictArgumentName = None,
                         getDefaultCount = 0, getAllNames = [''a'', ''k''] \<rparr>,
       cb_mayRaiseException = False \<rparr>"

definition creation_of :: "called_body \<Rightarrow> function_creation" where
  "creation_of function_body = FunctionCreation function_body [] None None"

definition example_call :: "called_body \<Rightarrow> int list \<Rightarrow> expr option \<Rightarrow> expr" where
  "example_call function_body xs call_kw =
     ExpressionCall (ExpressionFunctionCreation (creation_of function_body))
       (Some (intConstants xs)) call_kw"


text \<open>
  A function \<^verbatim>\<open>def f(a): x = ...\<close>: the body object 1 provides its parameter \<open>a\<close>
  and its local \<open>x\<close>, in this order.
\<close>

definition example_function_scope :: "body_kind \<Rightarrow> function_scope" where
  "example_function_scope kind =
     \<lparr> scope_ident = 1, scope_kind = kind,
       providing = [(''a'', ParameterVariable 1 ''a''), (''x'', LocalVariable 1 ''x'')],
       taken = {}, isUnoptimized = False,
       getBody = Some (StatementsFrame [StatementExpressionOnly (ExpressionVariableRef ''x'')]) \<rparr>"

definition exampleTryFinally :: "statement \<Rightarrow> statement list \<Rightarrow> statement" where
  "exampleTryFinally tried final = StatementTryFinally tried final"

definition exampleSequence :: "statement \<Rightarrow> statement" where
  "exampleSequence s = StatementsSequence [s]"


definition example_middle :: function_scope where
  "example_middle =
     \<lparr> scope_ident = 2, scope_kind = EXPRESSION_FUNCTION_BODY,
       providing = [], taken = {}, isUnoptimized = False, getBody = None \<rparr>"

definition example_inner :: "bool \<Rightarrow> function_scope" where
  "example_inner unoptimized =
     \<lparr> scope_ident = 3, scope_kind = EXPRESSION_FUNCTION_BODY,
       providing = [], taken = {}, isUnoptimized = unoptimized, getBody = None \<rparr>"

definition example_module_variable :: "string \<Rightarrow> variable" where
  "example_module_variable variable_name = ModuleVariable 0 variable_name"

section \<open>Qualified names\<close>

text \<open>
  Claim C9. The qualified name of a body is its own function name when its provider is the
  module; the provider's qualified name, a dot and the function name when the provider is
  a class body; and the provider's qualified name, \<open>.<locals>.\<close> and the function name
  when the provider is any other body.
\<close>

theorem qualname_composition:
  "(qualnameProviderOf python_version b = CompiledPythonModule \<longrightarrow>
      getFunctionQualname python_version b = getFunctionName b) \<and>
   (qualnameProviderOf python_version b = BodyProvider p \<and> isExpressionClassBody p \<longrightarrow>
      getFunctionQualname python_version b
        = getFunctionQualname python_version p @ ''.'' @ getFunctionName b) \<and>
   (qualnameProviderOf python_version b = BodyProvider p \<and> \<not> isExpressionClassBody p \<longrightarrow>
      getFunctionQualname python_version b
        = getFunctionQualname python_version p @ ''.<locals>.'' @ getFunctionName b)"
  by (cases b) (simp add: qualnameProviderOf_def)

text \<open>
  The three examples of the specification: a module-level function \<open>f\<close>, a method
  \<open>m\<close> of a module-level class \<open>C\<close>, and \<open>inner\<close> nested in \<open>outer\<close>.
\<close>

theorem qualname_composition_witness:
  "getFunctionQualname 350
     (Body EXPRESSION_FUNCTION_BODY ''f'' False False CompiledPythonModule CompiledPythonModule)
     = ''f'' \<and>
   getFunctionQualname 350
     (Body EXPRESSION_FUNCTION_BODY ''m'' False False
        (BodyProvider (Body EXPRESSION_CLASS_BODY ''C'' False False CompiledPythonModule CompiledPythonModule))
        (BodyProvider (Body EXPRESSION_CLASS_BODY ''C'' False False CompiledPythonModule CompiledPythonModule)))
     = ''C.m'' \<and>
   getFunctionQualname 270
     (Body EXPRESSION_FUNCTION_BODY ''inner'' False False
        (BodyProvider (Body EXPRESSION_FUNCTION_BODY ''outer'' False False CompiledPythonModule CompiledPythonModule))
        (BodyProvider (Body EXPRESSION_FUNCTION_BODY ''outer'' False False CompiledPythonModule CompiledPythonModule)))
     = ''outer.<locals>.inner''"
  using
    qualname_composition [of 350
      "Body EXPRESSION_FUNCTION_BODY ''f'' False False CompiledPythonModule CompiledPythonModule"]
    qualname_composition [of 350
      "Body EXPRESSION_FUNCTION_BODY ''m'' False False
        (BodyProvider (Body EXPRESSION_CLASS_BODY ''C'' False False CompiledPythonModule CompiledPythonModule))
        (BodyProvider (Body EXPRESSION_CLASS_BODY ''C'' False False CompiledPythonModule CompiledPythonModule))"
      "Body EXPRESSION_CLASS_BODY ''C'' False False CompiledPythonModule CompiledPythonModule"]
    qualname_composition [of 270
      "Body EXPRESSION_FUNCTION_BODY ''inner'' False False
        (BodyProvider (Body EXPRESSION_FUNCTION_BODY ''outer'' False False CompiledPythonModule CompiledPythonModule))
        (BodyProvider (Body EXPRESSION_FUNCTION_BODY ''outer'' False False CompiledPythonModule CompiledPythonModule))"
      "Body EXPRESSION_FUNCTION_BODY ''outer'' False False CompiledPythonModule CompiledPythonModule"]
  by (simp add: qualnameProviderOf_def isExpressionClassBody_def getFunctionName_def)

section \<open>Call cost and inlining\<close>

text \<open>
  Claim C4. The call cost is \<open>None\<close> when experimental mode is off, and otherwise
  \<open>None\<close> for generator and class bodies, 60 when the body may raise and 20 when it may
  not; a direct call is replaced by the outline exactly when the cost is a number below
  50, and is returned as it is otherwise.
\<close>

theorem call_cost_and_inlining:
  "getCallCost H fn vals =
     (if \<not> isExperimental H then None
      else if isGeneratorBody (getFunctionBody fn) \<or> isClassBody (getFunctionBody fn) then None
      else if cb_mayRaiseException (getFunctionBody fn) then Some 60
      else Some 20) \<and>
   ((\<exists>cost. getCallCost H fn vals = Some cost \<and> cost < 50) \<longrightarrow>
      FunctionCall_computeExpression H provider fn vals =
        (createOutlineFromCall H fn provider vals, Some ''new_statements'',
         Some ''Function call in-lined.'')) \<and>
   (\<not> (\<exists>cost. getCallCost H fn vals = Some cost \<and> cost < 50) \<longrightarrow>
      FunctionCall_computeExpression H provider fn vals =
        (ExpressionFunctionCall fn vals, None, None))"
  by (auto simp: getCallCost_def FunctionCall_computeExpression_def Let_def)

theorem call_cost_and_inlining_witness:
  "getCallCost (exampleCollaborators True) example_creation [] = Some 20 \<and>
   FunctionCall_computeExpression (exampleCollaborators True) ''module'' example_creation []
     = (ExpressionOutlineBody ''module'' example_f [], Some ''new_statements'',
        Some ''Function call in-lined.'') \<and>
   getCallCost (exampleCollaborators False) example_creation [] = None \<and>
   FunctionCall_computeExpression (exampleCollaborators False) ''module'' example_creation []
     = (ExpressionFunctionCall example_creation [], None, None)"
  using call_cost_and_inlining [of "exampleCollaborators True" example_creation "[]" "''module''"]
    call_cost_and_inlining [of "exampleCollaborators False" example_creation "[]" "''module''"]
  by (simp add: exampleCollaborators_def example_creation_def example_f_def isGeneratorBody_def
      isClassBody_def createOutlineFromCall_def)


section \<open>The function creation and its sub-expressions\<close>

lemma defaultsLoop_first_raising:
  "\<forall>e\<in>set pre. \<not> willRaiseException H e \<Longrightarrow> willRaiseException H d \<Longrightarrow>
   defaultsLoop H self side_effects (pre @ d # post) =
     Some (wrapExpressionWithSideEffects H side_effects (ExpressionFunctionCreation self) d,
           Some ''new_raise'', Some ''Default value contains raise.'')"
  by (induction pre) simp_all

text \<open>
  Claim C1. The claim asks that the rewrite at the first always-raising sub-expression keeps
  the side effects of every sub-expression evaluated before it. The code does not: when a
  positional default always raises, the list of side effects handed to
  \<^verbatim>\<open>wrapExpressionWithSideEffects\<close> is empty, whatever defaults stand before it, since
  the loop over the defaults never appends to \<^verbatim>\<open>side_effects\<close> (the keyword-defaults
  branch does append).
\<close>

theorem computeExpression_forgets_earlier_defaults:
  assumes "getDefaults self = pre @ d # post"
    and "\<forall>e\<in>set pre. \<not> willRaiseException H e"
    and "willRaiseException H d"
  shows "computeExpression H self =
           (wrapExpressionWithSideEffects H [] (ExpressionFunctionCreation self) d,
            Some ''new_raise'', Some ''Default value contains raise.'')"
  using assms by (simp add: computeExpression_def defaultsLoop_first_raising)

theorem computeExpression_forgets_earlier_defaults_witness:
  "computeExpression (exampleCollaborators False)
     (FunctionCreation example_f
        [ExpressionCall (ExpressionVariableRef ''g'') None None,
         ExpressionRaiseException (TypeError ''boom'')] None None)
   = (ExpressionRaiseException (TypeError ''boom''), Some ''new_raise'',
      Some ''Default value contains raise.'')"
  using computeExpression_forgets_earlier_defaults
    [of "FunctionCreation example_f
           [ExpressionCall (ExpressionVariableRef ''g'') None None,
            ExpressionRaiseException (TypeError ''boom'')] None None"
        "[ExpressionCall (ExpressionVariableRef ''g'') None None]"
        "ExpressionRaiseException (TypeError ''boom'')" "[]" "exampleCollaborators False"]
  by (simp add: exampleCollaborators_def exampleWillRaise_def exampleWrap_def)


section \<open>Calls of a function creation\<close>

lemma lookupAll_total:
  "set names \<subseteq> dom args_dict \<Longrightarrow> lookupAll args_dict names = Inr (map (\<lambda>n. the (args_dict n)) names)"
  by (induction names) auto

lemma lookupAll_missing:
  "name \<in> set names \<Longrightarrow> args_dict name = None \<Longrightarrow>
   \<exists>missing. missing \<in> set names \<and> args_dict missing = None
      \<and> lookupAll args_dict names = Inl (KeyError missing)"
proof (induction names)
  case Nil
  then show ?case by simp
next
  case (Cons n names)
  show ?case
  proof (cases "args_dict n")
    case None
    then show ?thesis by auto
  next
    case (Some v)
    then have "name \<in> set names" using Cons.prems by auto
    from Cons.IH [OF this Cons.prems(2)] obtain missing where
      "missing \<in> set names" "args_dict missing = None"
      "lookupAll args_dict names = Inl (KeyError missing)" by blast
    then show ?thesis using Some by auto
  qed
qed

lemma lookupAll_error: "lookupAll args_dict names = Inl e \<Longrightarrow> \<exists>n. e = KeyError n"
  by (induction names arbitrary: e) (auto split: option.splits sum.splits)

lemma matchAndRewrite_changes:
  "matchAndRewrite H self call_node args_tuple = Inr r \<Longrightarrow> fst (snd r) \<noteq> None"
  by (auto simp: matchAndRewrite_def Let_def split: sum.splits)

lemma matchAndRewrite_no_assertion:
  "matchAndRewrite H self call_node args_tuple \<noteq> Inl AssertionError"
  by (auto simp: matchAndRewrite_def Let_def split: sum.splits dest: lookupAll_error)

lemma example_g_matching_three:
  "matchAndRewrite (exampleCollaborators experimental) (creation_of example_g) call_node
     (map (\<lambda>x. ExpressionConstantRef (ConstInt x)) [1, 2, 3])
   = Inr (ExpressionFunctionCall (creation_of example_g)
            [ExpressionConstantRef (ConstInt 1), ExpressionConstantRef (ConstInt 2),
             ExpressionConstantRef (ConstInt 3)],
          Some ''new_statements'',
          Some (''Replaced call to created function body '' @ quoted ''g''
                @ '' with direct function call.''))"
  by (simp add: matchAndRewrite_def exampleCollaborators_def exampleMatchCall_def
      creation_of_def example_g_def getName_def Let_def)

lemma example_g_matching_none:
  "matchAndRewrite (exampleCollaborators experimental) (creation_of example_g)
     (ExpressionCall (ExpressionFunctionCreation (creation_of example_g)) None None) []
   = Inr (ExpressionRaiseException (TypeError ''g() takes another number of arguments''),
          Some ''new_raise'',
          Some (''Replaced call to created function body '' @ quoted ''g''
                @ '' to argument error''))"
  by (simp add: matchAndRewrite_def exampleCollaborators_def exampleMatchCall_def
      creation_of_def example_g_def getName_def Let_def exampleWrap_def
      examplePreCallSideEffects_def)

text \<open>
  Claim C2, as amended. A call with a keyword-argument expression, even a constant empty
  dictionary, is returned untouched. With no keyword-argument expression, the call goes on
  to parameter matching when the positional arguments are absent, a constant or a tuple
  creation, and the assertion \<^verbatim>\<open>assert False, call_args\<close> fails when they are of
  another shape. Parameter matching never gives the untouched result and never fails this
  assertion: what it returns carries a change tag.
\<close>

theorem argument_shape_gate:
  "(call_kw \<noteq> None \<longrightarrow>
      computeExpressionCall H self call_node call_args call_kw = Inr (call_node, None, None)) \<and>
   (call_kw = None \<and> call_args = None \<longrightarrow>
      computeExpressionCall H self call_node call_args call_kw
        = matchAndRewrite H self call_node []) \<and>
   (call_kw = None \<and> call_args = Some args
      \<and> (isExpressionConstantRef args \<or> isExpressionMakeTuple args) \<longrightarrow>
      computeExpressionCall H self call_node call_args call_kw
        = matchAndRewrite H self call_node (getIterationValues H args)) \<and>
   (call_kw = None \<and> call_args = Some args
      \<and> \<not> (isExpressionConstantRef args \<or> isExpressionMakeTuple args) \<longrightarrow>
      computeExpressionCall H self call_node call_args call_kw = Inl AssertionError) \<and>
   (\<forall>r. matchAndRewrite H self call_node args_tuple = Inr r \<longrightarrow> fst (snd r) \<noteq> None) \<and>
   matchAndRewrite H self call_node args_tuple \<noteq> Inl AssertionError"
  by (auto simp: computeExpressionCall_def matchAndRewrite_changes matchAndRewrite_no_assertion)

theorem argument_shape_gate_witness:
  "computeExpressionCall (exampleCollaborators False) (creation_of example_g)
       (ExpressionCall (ExpressionFunctionCreation (creation_of example_g)) None
          (Some (ExpressionVariableRef ''kw'')))
       None (Some (ExpressionVariableRef ''kw''))
     = Inr (ExpressionCall (ExpressionFunctionCreation (creation_of example_g)) None
              (Some (ExpressionVariableRef ''kw'')), None, None) \<and>
   computeExpressionCall (exampleCollaborators False) (creation_of example_g)
       (ExpressionCall (ExpressionFunctionCreation (creation_of example_g)) None None) None None
     = Inr (ExpressionRaiseException (TypeError ''g() takes another number of arguments''),
            Some ''new_raise'',
            Some (''Replaced call to created function body '' @ quoted ''g''
                  @ '' to argument error'')) \<and>
   computeExpressionCall (exampleCollaborators False) (creation_of example_g)
       (example_call example_g [1, 2, 3] None) (Some (intConstants [1, 2, 3])) None
     = Inr (ExpressionFunctionCall (creation_of example_g)
              [ExpressionConstantRef (ConstInt 1), ExpressionConstantRef (ConstInt 2),
               ExpressionConstantRef (ConstInt 3)],
            Some ''new_statements'',
            Some (''Replaced call to created function body '' @ quoted ''g''
                  @ '' with direct function call.'')) \<and>
   computeExpressionCall (exampleCollaborators False) (creation_of example_g)
       (ExpressionCall (ExpressionFunctionCreation (creation_of example_g))
          (Some (ExpressionVariableRef ''args'')) None)
       (Some (ExpressionVariableRef ''args'')) None
     = Inl AssertionError"
  using
    argument_shape_gate [of "Some (ExpressionVariableRef ''kw'')" "exampleCollaborators False"
      "creation_of example_g"
      "ExpressionCall (ExpressionFunctionCreation (creation_of example_g)) None
         (Some (ExpressionVariableRef ''kw''))" None]
    argument_shape_gate [of None "exampleCollaborators False" "creation_of example_g"
      "ExpressionCall (ExpressionFunctionCreation (creation_of example_g)) None None" None]
    argument_shape_gate [of None "exampleCollaborators False" "creation_of example_g"
      "example_call example_g [1, 2, 3] None" "Some (intConstants [1, 2, 3])"
      "intConstants [1, 2, 3]"]
    argument_shape_gate [of None "exampleCollaborators False" "creation_of example_g"
      "ExpressionCall (ExpressionFunctionCreation (creation_of example_g))
         (Some (ExpressionVariableRef ''args'')) None"
      "Some (ExpressionVariableRef ''args'')" "ExpressionVariableRef ''args''"]
    example_g_matching_none [of False]
    example_g_matching_three [of False "example_call example_g [1, 2, 3] None"]
  by (simp add: intConstants_def exampleCollaborators_def exampleIterationValues_def)

text \<open>
  The claim as stated fails twice. The call \<open>g(1, 2, 3)\<close> with the constant \<open>{}\<close> as
  keyword arguments is returned untouched, while the same call without a keyword-argument
  expression is rewritten into a direct call; and a call without keyword arguments whose
  positional arguments are neither a constant nor a tuple creation is not returned
  untouched: the assertion fails.
\<close>

theorem argument_shape_gate_counterexample:
  "computeExpressionCall (exampleCollaborators False) (creation_of example_g)
       (example_call example_g [1, 2, 3] (Some (ExpressionConstantRef (ConstDict []))))
       (Some (intConstants [1, 2, 3])) (Some (ExpressionConstantRef (ConstDict [])))
     = Inr (example_call example_g [1, 2, 3] (Some (ExpressionConstantRef (ConstDict []))),
            None, None) \<and>
   computeExpressionCall (exampleCollaborators False) (creation_of example_g)
       (example_call example_g [1, 2, 3] None) (Some (intConstants [1, 2, 3])) None
     = Inr (ExpressionFunctionCall (creation_of example_g)
              [ExpressionConstantRef (ConstInt 1), ExpressionConstantRef (ConstInt 2),
               ExpressionConstantRef (ConstInt 3)],
            Some ''new_statements'',
            Some (''Replaced call to created function body '' @ quoted ''g''
                  @ '' with direct function call.'')) \<and>
   computeExpressionCall (exampleCollaborators False) (creation_of example_g)
       (ExpressionCall (ExpressionFunctionCreation (creation_of example_g))
          (Some (ExpressionVariableRef ''args'')) None)
       (Some (ExpressionVariableRef ''args'')) None
     = Inl AssertionError"
  using example_g_matching_three [of False "example_call example_g [1, 2, 3] None"]
  by (simp add: computeExpressionCall_def intConstants_def exampleCollaborators_def
      exampleIterationValues_def)

text \<open>
  Claim C3. When the argument-shape gate passes there are three outcomes, not two. A match
  that binds every name of \<^verbatim>\<open>getAllNames()\<close> yields the direct call with the matched
  values in that order, and \<^verbatim>\<open>TooManyArguments\<close> yields the raise node wrapped in the
  pre-call side effects of the call. But \<^verbatim>\<open>matchCall\<close> is given
  \<^verbatim>\<open>getArgumentNames()\<close> only, and a match that leaves a name of
  \<^verbatim>\<open>getAllNames()\<close> unbound makes \<^verbatim>\<open>args_dict[name]\<close> raise \<^verbatim>\<open>KeyError\<close>, which
  \<^verbatim>\<open>except TooManyArguments\<close> does not catch.
\<close>

theorem parameter_matching_key_error:
  assumes gate: "call_kw = None"
    and shape: "(call_args = None \<and> args_tuple = []) \<or>
                (\<exists>args. call_args = Some args
                   \<and> (isExpressionConstantRef args \<or> isExpressionMakeTuple args)
                   \<and> args_tuple = getIterationValues H args)"
  shows "(matchCall H (getName self) (getArgumentNames (cb_parameters (getFunctionBody self)))
            (getStarListArgumentName (cb_parameters (getFunctionBody self)))
            (getStarDictArgumentName (cb_parameters (getFunctionBody self)))
            (getDefaultCount (cb_parameters (getFunctionBody self))) args_tuple [] = Inr args_dict
          \<and> set (getAllNames (cb_parameters (getFunctionBody self))) \<subseteq> dom args_dict \<longrightarrow>
          computeExpressionCall H self call_node call_args call_kw =
            Inr (ExpressionFunctionCall self
                   (map (\<lambda>name. the (args_dict name))
                      (getAllNames (cb_parameters (getFunctionBody self)))),
                 Some ''new_statements'',
                 Some (''Replaced call to created function body '' @ quoted (getName self)
                       @ '' with direct function call.''))) \<and>
         (matchCall H (getName self) (getArgumentNames (cb_parameters (getFunctionBody self)))
            (getStarListArgumentName (cb_parameters (getFunctionBody self)))
            (getStarDictArgumentName (cb_parameters (getFunctionBody self)))
            (getDefaultCount (cb_parameters (getFunctionBody self))) args_tuple [] = Inr args_dict
          \<and> name \<in> set (getAllNames (cb_parameters (getFunctionBody self)))
          \<and> args_dict name = None \<longrightarrow>
          (\<exists>missing. missing \<in> set (getAllNames (cb_parameters (getFunctionBody self)))
             \<and> args_dict missing = None
             \<and> computeExpressionCall H self call_node call_args call_kw
                 = Inl (KeyError missing))) \<and>
         (matchCall H (getName self) (getArgumentNames (cb_parameters (getFunctionBody self)))
            (getStarListArgumentName (cb_parameters (getFunctionBody self)))
            (getStarDictArgumentName (cb_parameters (getFunctionBody self)))
            (getDefaultCount (cb_parameters (getFunctionBody self))) args_tuple [] = Inl exception \<longrightarrow>
          computeExpressionCall H self call_node call_args call_kw =
            Inr (wrapExpressionWithSideEffects H (extractPreCallSideEffects H call_node) call_node
                   (makeRaiseExceptionReplacementExpressionFromInstance H call_node exception),
                 Some ''new_raise'',
                 Some (''Replaced call to created function body '' @ quoted (getName self)
                       @ '' to argument error'')))"
proof -
  let ?spec = "cb_parameters (getFunctionBody self)"
  let ?m = "matchCall H (getName self) (getArgumentNames ?spec) (getStarListArgumentName ?spec)
              (getStarDictArgumentName ?spec) (getDefaultCount ?spec) args_tuple []"
  have eq: "computeExpressionCall H self call_node call_args call_kw
          = matchAndRewrite H self call_node args_tuple"
    using gate shape by (auto simp: computeExpressionCall_def)
  have bound: "?m = Inr args_dict \<and> set (getAllNames ?spec) \<subseteq> dom args_dict \<longrightarrow>
      matchAndRewrite H self call_node args_tuple =
        Inr (ExpressionFunctionCall self (map (\<lambda>name. the (args_dict name)) (getAllNames ?spec)),
             Some ''new_statements'',
             Some (''Replaced call to created function body '' @ quoted (getName self)
                   @ '' with direct function call.''))"
    by (simp add: matchAndRewrite_def Let_def lookupAll_total)
  have unbound: "?m = Inr args_dict \<and> name \<in> set (getAllNames ?spec) \<and> args_dict name = None \<longrightarrow>
      (\<exists>missing. missing \<in> set (getAllNames ?spec) \<and> args_dict missing = None
         \<and> matchAndRewrite H self call_node args_tuple = Inl (KeyError missing))"
  proof (intro impI, elim conjE)
    assume m: "?m = Inr args_dict"
      and n: "name \<in> set (getAllNames ?spec)" and u: "args_dict name = None"
    from lookupAll_missing [of name "getAllNames ?spec" args_dict] n u obtain missing where
      "missing \<in> set (getAllNames ?spec)" "args_dict missing = None"
      "lookupAll args_dict (getAllNames ?spec) = Inl (KeyError missing)" by blast
    then show "\<exists>missing. missing \<in> set (getAllNames ?spec) \<and> args_dict missing = None
         \<and> matchAndRewrite H self call_node args_tuple = Inl (KeyError missing)"
      using m by (auto simp: matchAndRewrite_def Let_def)
  qed
  have failed: "?m = Inl exception \<longrightarrow>
      matchAndRewrite H self call_node args_tuple =
        Inr (wrapExpressionWithSideEffects H (extractPreCallSideEffects H call_node) call_node
               (makeRaiseExceptionReplacementExpressionFromInstance H call_node exception),
             Some ''new_raise'',
             Some (''Replaced call to created function body '' @ quoted (getName self)
                   @ '' to argument error''))"
    by (simp add: matchAndRewrite_def Let_def)
  show ?thesis
    unfolding eq using bound unbound failed by blast
qed

text \<open>
  The function \<^verbatim>\<open>h(a, *, k)\<close> called as \<open>h(1)\<close>: the match binds \<open>a\<close>, the
  keyword-only \<open>k\<close> is not among the names given to the match, and the call-site
  optimizer ends with \<^verbatim>\<open>KeyError\<close>.
\<close>

theorem parameter_matching_key_error_witness:
  "computeExpressionCall (exampleCollaborators False) (creation_of example_h)
       (example_call example_h [1] None) (Some (intConstants [1])) None
     = Inl (KeyError ''k'')"
proof -
  let ?H = "exampleCollaborators False"
  let ?self = "creation_of example_h"
  let ?d = "map_of (zip [''a''] [ExpressionConstantRef (ConstInt 1)])"
  have shape: "(Some (intConstants [1]) = None \<and> [ExpressionConstantRef (ConstInt 1)] = []) \<or>
            (\<exists>args. Some (intConstants [1]) = Some args
               \<and> (isExpressionConstantRef args \<or> isExpressionMakeTuple args)
               \<and> [ExpressionConstantRef (ConstInt 1)] = getIterationValues ?H args)"
    by (simp add: intConstants_def exampleCollaborators_def exampleIterationValues_def)
  have matched: "matchCall ?H (getName ?self)
              (getArgumentNames (cb_parameters (getFunctionBody ?self)))
              (getStarListArgumentName (cb_parameters (getFunctionBody ?self)))
              (getStarDictArgumentName (cb_parameters (getFunctionBody ?self)))
              (getDefaultCount (cb_parameters (getFunctionBody ?self)))
              [ExpressionConstantRef (ConstInt 1)] [] = Inr ?d"
    by (simp add: exampleCollaborators_def exampleMatchCall_def creation_of_def
        example_h_def getName_def)
  have names: "getAllNames (cb_parameters (getFunctionBody ?self)) = [''a'', ''k'']"
    by (simp add: creation_of_def example_h_def)
  have unbound: "?d ''k'' = None" "?d ''a'' \<noteq> None"
    by simp_all
  from parameter_matching_key_error [OF refl shape, of ?self ?d
      "example_call example_h [1] None" "''k''"] matched names unbound
  obtain missing where "missing \<in> {''a'', ''k''}" "?d missing = None"
    "computeExpressionCall ?H ?self (example_call example_h [1] None)
       (Some (intConstants [1])) None = Inl (KeyError missing)"
    by auto
  then show ?thesis by auto
qed

section \<open>Repeated application of the call-site optimizer\<close>




















section \<open>Releasing the variables of a function\<close>

lemma releasesLoop_filter:
  "releasesLoop fn vs =
     map StatementReleaseVariable
       (filter (\<lambda>v. getOwner v = scope_ident fn
                    \<and> \<not> (scopeIsGenerator fn \<and> isParameterVariable v)) vs)"
  by (induction vs) auto

text \<open>
  Claim C6, as amended. The release injector collects, in the order of \<^verbatim>\<open>providing\<close>,
  the variables the body owns that answer \<^verbatim>\<open>isLocalVariable()\<close>, parameter variables
  included, except that a generator body skips its parameter variables. When the list is
  not empty the body (a frame first wrapped in a sequence) becomes the \<^verbatim>\<open>tried\<close> part of
  one try/finally statement whose \<^verbatim>\<open>final\<close> part releases the collected variables, each
  once when the provided variables are distinct; otherwise the function is left as it is.
\<close>

theorem release_injector:
  "(let collected = filter (\<lambda>v. isLocalVariable v \<and> getOwner v = scope_ident fn
                                 \<and> \<not> (scopeIsGenerator fn \<and> isParameterVariable v))
                      (map snd (providing fn))
    in releasesLoop fn (getLocalVariables fn) = map StatementReleaseVariable collected \<and>
       (scopeIsExpressionFunctionBody fn \<and> collected \<noteq> [] \<and> getBody fn = Some body \<longrightarrow>
          addFunctionVariableReleases makeTryFinallyStatement makeStatementsSequenceFromStatement fn
            = Inr (fn\<lparr>getBody := Some (makeStatementsSequenceFromStatement
                     (makeTryFinallyStatement
                        (if isStatementsFrame body
                         then makeStatementsSequenceFromStatement body else body)
                        (map StatementReleaseVariable collected)))\<rparr>)) \<and>
       (scopeIsExpressionFunctionBody fn \<and> collected = [] \<longrightarrow>
          addFunctionVariableReleases makeTryFinallyStatement makeStatementsSequenceFromStatement fn
            = Inr fn) \<and>
       (distinct (map snd (providing fn)) \<longrightarrow>
          distinct (map StatementReleaseVariable collected)) \<and>
       (scopeIsGenerator fn \<longrightarrow> (\<forall>v\<in>set collected. \<not> isParameterVariable v)))"
proof -
  have loop: "releasesLoop fn (getLocalVariables fn) =
      map StatementReleaseVariable
        (filter (\<lambda>v. isLocalVariable v \<and> getOwner v = scope_ident fn
                     \<and> \<not> (scopeIsGenerator fn \<and> isParameterVariable v))
           (map snd (providing fn)))"
    unfolding releasesLoop_filter getLocalVariables_def filter_filter
    by (rule arg_cong [where f = "map StatementReleaseVariable"], rule filter_cong) auto
  have inj: "inj StatementReleaseVariable"
    by (simp add: inj_def)
  show ?thesis
    unfolding Let_def
    by (auto simp: loop addFunctionVariableReleases_def Let_def distinct_map
        intro: distinct_filter inj_onI)
qed

theorem release_injector_witness:
  "addFunctionVariableReleases exampleTryFinally exampleSequence
       (example_function_scope EXPRESSION_FUNCTION_BODY)
     = Inr ((example_function_scope EXPRESSION_FUNCTION_BODY)
         \<lparr>getBody := Some (StatementsSequence
            [StatementTryFinally
               (StatementsSequence
                  [StatementsFrame [StatementExpressionOnly (ExpressionVariableRef ''x'')]])
               [StatementReleaseVariable (ParameterVariable 1 ''a''),
                StatementReleaseVariable (LocalVariable 1 ''x'')]])\<rparr>) \<and>
   releasesLoop (example_function_scope EXPRESSION_GENERATOR_FUNCTION_BODY)
       (getLocalVariables (example_function_scope EXPRESSION_GENERATOR_FUNCTION_BODY))
     = [StatementReleaseVariable (LocalVariable 1 ''x'')]"
  using release_injector [of "example_function_scope EXPRESSION_FUNCTION_BODY"
      "StatementsFrame [StatementExpressionOnly (ExpressionVariableRef ''x'')]"
      exampleTryFinally exampleSequence]
    release_injector [of "example_function_scope EXPRESSION_GENERATOR_FUNCTION_BODY"]
  by (simp add: example_function_scope_def scopeIsGenerator_def scopeIsExpressionFunctionBody_def
      exampleTryFinally_def exampleSequence_def Let_def)

text \<open>
  The claim as stated fails: for \<^verbatim>\<open>def f(a): x = ...\<close> the code releases the parameter
  \<open>a\<close> and the local \<open>x\<close>, while the set named by the claim holds \<open>x\<close> only.
\<close>

theorem release_injector_counterexample:
  "releasesLoop (example_function_scope EXPRESSION_FUNCTION_BODY)
       (getLocalVariables (example_function_scope EXPRESSION_FUNCTION_BODY))
     = [StatementReleaseVariable (ParameterVariable 1 ''a''),
        StatementReleaseVariable (LocalVariable 1 ''x'')] \<and>
   map StatementReleaseVariable (specReleaseVariables (example_function_scope EXPRESSION_FUNCTION_BODY))
     = [StatementReleaseVariable (LocalVariable 1 ''x'')]"
  by (simp add: example_function_scope_def getLocalVariables_def specReleaseVariables_def
      scopeIsGenerator_def)

section \<open>Resolving a reference\<close>


lemma module_variable_not_maybe_local: "isModuleVariable v \<Longrightarrow> \<not> isMaybeLocalVariable v"
  by (cases v) auto






text \<open>
  Claim C8. In a scope marked unoptimized, a reference to a name that is not provided
  locally and for which the closure search returns a module variable resolves to a
  maybe-local variable that wraps the module variable and is owned by the referencing
  scope, where it is registered as provided.
\<close>

theorem unoptimized_maybe_local:
  "(lookupProvided self variable_name = None \<and> closure_variable self variable_name = (v, self1)
      \<and> isModuleVariable v \<and> isUnoptimized self1 \<longrightarrow>
      getVariableForReference closure_variable self variable_name
        = (MaybeLocalVariable (scope_ident self1) v,
           registerProvidedVariable self1 (MaybeLocalVariable (scope_ident self1) v))) \<and>
   (lookupProvided self variable_name = None \<and> isUnoptimized self
      \<and> getVariableForClosure python_version module_variable providers variable_name = v
      \<and> isModuleVariable v \<longrightarrow>
      resolveForReference python_version module_variable (self # providers) variable_name
        = Some (MaybeLocalVariable (scope_ident self) v,
                registerProvidedVariable self (MaybeLocalVariable (scope_ident self) v) # providers))"
  by (auto simp: getVariableForReference_def getClosureVariable_def Let_def
      module_variable_not_maybe_local)

theorem unoptimized_maybe_local_witness:
  "resolveForReference 350 example_module_variable
       [example_inner True, example_middle] ''y''
     = Some (MaybeLocalVariable 3 (ModuleVariable 0 ''y''),
             [(example_inner True)\<lparr>providing := [(''y'', MaybeLocalVariable 3 (ModuleVariable 0 ''y''))]\<rparr>,
              example_middle])"
  using unoptimized_maybe_local [of "example_inner True" "''y''"
      "\<lambda>self variable_name.
         (fst (getClosureVariable 350 example_module_variable [example_middle] self variable_name),
          fst (snd (getClosureVariable 350 example_module_variable [example_middle] self
                      variable_name)))"
      "ModuleVariable 0 ''y''" "example_inner True" 350 example_module_variable "[example_middle]"]
  by (simp add: example_inner_def example_middle_def lookupProvided_def
      example_module_variable_def getClosureVariable_def registerProvidedVariable_def Let_def)

section \<open>The final return of a function body\<close>

lemma lastAbortsAtEnd_append_return:
  "lastAbortsAtEnd (ss @ [returnNone])"
  by (induction ss) (auto simp: returnNone_def)

lemma abortsAtEnd_inserted:
  "function_statements_body = None \<or> (\<exists>ss. function_statements_body = Some (StatementsFrame ss))
     \<or> (\<exists>ss. function_statements_body = Some (StatementsSequence ss)) \<Longrightarrow>
   abortsAtEnd (insertFinalReturnStatement abortsAtEnd (\<lambda>s. StatementsSequence [s])
                  function_statements_body)"
  by (auto simp: insertFinalReturnStatement_def returnNone_def lastAbortsAtEnd_append_return [unfolded returnNone_def])

text \<open>
  Claim C10. The body of a non-generator function and the body of a coroutine get the same
  treatment: absent statements become a sequence holding \<^verbatim>\<open>return None\<close>, statements
  that do not abort get \<^verbatim>\<open>return None\<close> appended, aborting statements stay as they are,
  and a frame is wrapped in a sequence; a generator body is only wrapped. With the
  structural reading of aborting, the body built from absent statements, a frame or a
  sequence aborts at its end.
\<close>

theorem final_return_inserted:
  "buildFunctionNode_body isStatementAborting makeStatementsSequenceFromStatement False
       function_statements_body
     = Inr (buildAsyncFunctionNode_body isStatementAborting makeStatementsSequenceFromStatement
              function_statements_body) \<and>
   buildAsyncFunctionNode_body isStatementAborting makeStatementsSequenceFromStatement
       function_statements_body
     = (let b = insertFinalReturnStatement isStatementAborting
                  makeStatementsSequenceFromStatement function_statements_body
        in if isStatementsFrame b then makeStatementsSequenceFromStatement b else b) \<and>
   insertFinalReturnStatement isStatementAborting makeStatementsSequenceFromStatement None
     = makeStatementsSequenceFromStatement returnNone \<and>
   (\<not> isStatementAborting body \<longrightarrow>
      insertFinalReturnStatement isStatementAborting makeStatementsSequenceFromStatement (Some body)
        = setStatements body (getStatements body @ [returnNone])) \<and>
   (isStatementAborting body \<longrightarrow>
      insertFinalReturnStatement isStatementAborting makeStatementsSequenceFromStatement (Some body)
        = body) \<and>
   buildFunctionNode_body isStatementAborting makeStatementsSequenceFromStatement True (Some body)
     = Inr (if isStatementsFrame body then makeStatementsSequenceFromStatement body else body) \<and>
   (function_statements_body = None \<or> (\<exists>ss. function_statements_body = Some (StatementsFrame ss))
      \<or> (\<exists>ss. function_statements_body = Some (StatementsSequence ss)) \<longrightarrow>
      abortsAtEnd (buildAsyncFunctionNode_body abortsAtEnd (\<lambda>s. StatementsSequence [s])
                     function_statements_body))"
  using abortsAtEnd_inserted [of function_statements_body]
  by (auto simp: buildFunctionNode_body_def buildAsyncFunctionNode_body_def
      insertFinalReturnStatement_def Let_def)

theorem final_return_inserted_witness:
  "buildFunctionNode_body abortsAtEnd (\<lambda>s. StatementsSequence [s]) False
       (Some (StatementsFrame [StatementExpressionOnly (ExpressionVariableRef ''x'')]))
     = Inr (StatementsSequence
              [StatementsFrame [StatementExpressionOnly (ExpressionVariableRef ''x''), returnNone]]) \<and>
   buildFunctionNode_body abortsAtEnd (\<lambda>s. StatementsSequence [s]) False None
     = Inr (StatementsSequence [returnNone]) \<and>
   buildFunctionNode_body abortsAtEnd (\<lambda>s. StatementsSequence [s]) True
       (Some (StatementsFrame [StatementExpressionOnly (ExpressionVariableRef ''x'')]))
     = Inr (StatementsSequence
              [StatementsFrame [StatementExpressionOnly (ExpressionVariableRef ''x'')]])"
  using final_return_inserted [of abortsAtEnd "\<lambda>s. StatementsSequence [s]"
      "Some (StatementsFrame [StatementExpressionOnly (ExpressionVariableRef ''x'')])"
      "StatementsFrame [StatementExpressionOnly (ExpressionVariableRef ''x'')]"]
    final_return_inserted [of abortsAtEnd "\<lambda>s. StatementsSequence [s]" None]
  by (simp add: returnNone_def Let_def)

end
